theory Spec2Isabelle
  imports Main
begin

section \<open>Text\<close>

text \<open>
  A Python \<open>str\<close> is modelled as a \<^typ>\<open>string\<close>: a list of characters, each
  character standing for the code point of the same number (U+0000 to U+00FF).
  The string methods the program calls are written out below with Python's meaning
  on that range.
\<close>

type_synonym pystr = string

text \<open>\<open>c in s\<close> for a one-character \<open>c\<close>.\<close>

definition contains :: "char \<Rightarrow> pystr \<Rightarrow> bool" where
  "contains c s = (c \<in> set s)"

text \<open>\<open>s.replace(a, b)\<close> for one-character \<open>a\<close> and \<open>b\<close>.\<close>

definition replace :: "char \<Rightarrow> char \<Rightarrow> pystr \<Rightarrow> pystr" where
  "replace a b s = map (\<lambda>c. if c = a then b else c) s"

text \<open>
  \<open>s.split(sep)\<close> for a one-character separator: every occurrence of the separator
  ends a field, empty fields are kept, and the result is never empty.
\<close>

fun split_sep :: "char \<Rightarrow> pystr \<Rightarrow> pystr list" where
  "split_sep sep [] = [[]]"
| "split_sep sep (c # cs) =
     (if c = sep then [] # split_sep sep cs
      else (let r = split_sep sep cs in (c # hd r) # tl r))"

text \<open>
  \<open>str.isspace\<close> on one character: TAB, LF, VT, FF, CR, FS, GS, RS, US, SPACE,
  NEL (U+0085) and NBSP (U+00A0).
\<close>

definition isspace :: "char \<Rightarrow> bool" where
  "isspace c = (c \<in> {CHR 0x09, CHR 0x0A, CHR 0x0B, CHR 0x0C, CHR 0x0D,
                      CHR 0x1C, CHR 0x1D, CHR 0x1E, CHR 0x1F, CHR 0x20,
                      CHR 0x85, CHR 0xA0})"

text \<open>
  The line boundaries of \<open>str.splitlines\<close>: LF, VT, FF, CR, FS, GS, RS and NEL;
  CR followed by LF is one boundary.
\<close>

definition islinebreak :: "char \<Rightarrow> bool" where
  "islinebreak c = (c \<in> {CHR 0x0A, CHR 0x0B, CHR 0x0C, CHR 0x0D,
                          CHR 0x1C, CHR 0x1D, CHR 0x1E, CHR 0x85})"

text \<open>
  \<open>s.splitlines()\<close>: the lines of \<open>s\<close> without their boundaries; a boundary at the
  very end opens no further line, and the empty string has no line.
\<close>

fun splitlines :: "pystr \<Rightarrow> pystr list" where
  "splitlines [] = []"
| "splitlines (c # cs) =
     (if c = CHR 0x0D then
        (case cs of
           [] \<Rightarrow> [[]]
         | d # ds \<Rightarrow> if d = CHR 0x0A then [] # splitlines ds else [] # splitlines cs)
      else if islinebreak c then [] # splitlines cs
      else (case splitlines cs of [] \<Rightarrow> [[c]] | l # ls \<Rightarrow> (c # l) # ls))"

text \<open>
  \<open>s.split()\<close>: the maximal runs of non-whitespace characters. \<open>split_ws w s\<close>
  scans \<open>s\<close> with the run read so far in \<open>w\<close>.
\<close>

fun split_ws :: "pystr \<Rightarrow> pystr \<Rightarrow> pystr list" where
  "split_ws w [] = (if w = [] then [] else [w])"
| "split_ws w (c # cs) =
     (if isspace c then (if w = [] then split_ws [] cs else w # split_ws [] cs)
      else split_ws (w @ [c]) cs)"

definition split_whitespace :: "pystr \<Rightarrow> pystr list" where
  "split_whitespace s = split_ws [] s"

text \<open>\<open>s.strip()\<close>: whitespace removed at both ends.\<close>

definition lstrip :: "pystr \<Rightarrow> pystr" where
  "lstrip s = dropWhile isspace s"

definition rstrip :: "pystr \<Rightarrow> pystr" where
  "rstrip s = rev (dropWhile isspace (rev s))"

definition strip :: "pystr \<Rightarrow> pystr" where
  "strip s = rstrip (lstrip s)"

text \<open>
  \<open>s.lower()\<close>: the upper-case letters of the range are A to Z and U+00C0 to U+00DE
  without the multiplication sign U+00D7; each has its lower-case letter 32 places on.
\<close>

definition lower_char :: "char \<Rightarrow> char" where
  "lower_char c =
     (let n = (of_char c :: nat)
      in if (65 \<le> n \<and> n \<le> 90) \<or> (192 \<le> n \<and> n \<le> 222 \<and> n \<noteq> 215)
         then char_of (n + 32) else c)"

definition lower :: "pystr \<Rightarrow> pystr" where
  "lower s = map lower_char s"

text \<open>\<open>s.startswith(c)\<close> and \<open>s.endswith(c)\<close> for a one-character \<open>c\<close>.\<close>

definition startswith :: "pystr \<Rightarrow> char \<Rightarrow> bool" where
  "startswith s c = (case s of [] \<Rightarrow> False | x # _ \<Rightarrow> x = c)"

definition endswith :: "pystr \<Rightarrow> char \<Rightarrow> bool" where
  "endswith s c = (case rev s of [] \<Rightarrow> False | x # _ \<Rightarrow> x = c)"

text \<open>
  The slice \<open>s[1:-1]\<close>: the characters at the positions from 1 up to, and without,
  \<open>len(s) - 1\<close>. It is empty when \<open>s\<close> has at most two characters; a slice
  never raises.
\<close>

definition slice_1_m1 :: "pystr \<Rightarrow> pystr" where
  "slice_1_m1 s = drop 1 (take (length s - 1) s)"

text \<open>\<open>sep.join(xs)\<close>.\<close>

fun join :: "pystr \<Rightarrow> pystr list \<Rightarrow> pystr" where
  "join sep [] = []"
| "join sep [x] = x"
| "join sep (x # y # ys) = x @ sep @ join sep (y # ys)"

section \<open>Files, console and the outside world\<close>

text \<open>
  A \<open>pathlib\<close> path is the list of its parts; \<open>path / ".gitignore"\<close> adds one part.
\<close>

type_synonym path = "pystr list"

definition gitignore_path :: "path \<Rightarrow> path" where
  "gitignore_path p = p @ [''.gitignore'']"

text \<open>An exception caught by \<open>except Exception as e\<close>, with its message.\<close>

datatype exn = Exception pystr

text \<open>
  What the program shows on the terminal, one constructor for each print of the
  source (the wording and the icons differ between the two source files, the places
  and the order do not; the transient progress spinner leaves nothing behind):
  the fetch failure (\<open>fetch_template\<close>), the overwrite question of \<open>input\<close>, the
  cancellation notice, the success panel and the write failure (\<open>generate\<close>),
  the not-found error, the panel with the file's text and the read failure
  (\<open>read_gitignore\<close>), and the start message (\<open>main\<close>).
\<close>

datatype msg =
    FetchFailed exn
  | Prompt path
  | Canceled
  | Stored path
  | WriteFailed exn
  | NotFound path
  | Content pystr
  | ReadFailed exn
  | Starting

text \<open>
  The state the program works on: the text files of the file system, by path, and
  the terminal output so far.
\<close>

record world =
  fs :: "path \<rightharpoonup> pystr"
  console :: "msg list"

text \<open>
  What the outside world answers during one run:
  \<^item> \<open>urlopen\<close>: for a URL, the decoded body of the response, or the exception that
    \<open>urlopen\<close>, \<open>read\<close> or \<open>decode\<close> raises;
  \<^item> \<open>answer\<close>: the line the user types at the overwrite question;
  \<^item> \<open>write_fault\<close>: \<open>None\<close> when writing the file works; otherwise the exception
    the write raises together with what the failed call leaves at the path
    (\<open>None\<close>: no file);
  \<^item> \<open>read_fault\<close>: \<open>None\<close> when reading the file and showing its panel works,
    otherwise the exception raised inside the \<open>try\<close> block of \<open>read_gitignore\<close>;
  \<^item> \<open>print_fault\<close>: for a message into whose markup the program puts a path or the
    text of an exception, the exception \<open>console.print\<close> raises on it (the text may
    hold a closing tag that matches no open tag), or \<open>None\<close> when it is rendered.
\<close>

record env =
  urlopen :: "pystr \<Rightarrow> exn + pystr"
  answer :: pystr
  write_fault :: "(exn \<times> pystr option) option"
  read_fault :: "exn option"
  print_fault :: "msg \<Rightarrow> exn option"

text \<open>
  A server that answers every URL alike; a console that renders every message; and
  a console that raises on one message and renders the others.
\<close>

definition server :: "exn + pystr \<Rightarrow> pystr \<Rightarrow> exn + pystr" where
  "server r url = r"

definition renders_all :: "msg \<Rightarrow> exn option" where
  "renders_all m = None"

definition raises_on :: "msg \<Rightarrow> exn \<Rightarrow> msg \<Rightarrow> exn option" where
  "raises_on bad e m = (if m = bad then Some e else None)"

text \<open>
  A result with the state it leaves: a raised exception does not undo what was done
  before it.
\<close>

type_synonym 'a result = "'a \<times> world"

text \<open>
  Output that always appears: the prints of a fixed text (the cancellation notice,
  the start message), the question of \<open>input\<close>, and the panel with the file's text.
\<close>

definition display :: "msg \<Rightarrow> world \<Rightarrow> world" where
  "display m w = w\<lparr>console := console w @ [m]\<rparr>"

text \<open>
  \<open>console.print\<close> of a message with a path or an exception text put into its
  markup: the message appears, or the print raises and nothing appears. The first
  component is the exception raised, if any.
\<close>

definition console_print :: "env \<Rightarrow> msg \<Rightarrow> world \<Rightarrow> exn option result" where
  "console_print env m w =
     (case print_fault env m of
        None \<Rightarrow> (None, display m w)
      | Some e \<Rightarrow> (Some e, w))"

text \<open>\<open>p.exists()\<close>.\<close>

definition exists :: "world \<Rightarrow> path \<Rightarrow> bool" where
  "exists w p = (fs w p \<noteq> None)"

text \<open>\<open>p.write_text(s)\<close>: the file holds \<open>s\<close> and nothing else.\<close>

definition write_text :: "path \<Rightarrow> pystr \<Rightarrow> world \<Rightarrow> world" where
  "write_text p s w = w\<lparr>fs := (fs w)(p \<mapsto> s)\<rparr>"

text \<open>
  \<open>p.open("a")\<close> followed by \<open>f.write(s)\<close>: \<open>s\<close> is added after what the file holds;
  opening for append creates a missing file.
\<close>

definition append_text :: "path \<Rightarrow> pystr \<Rightarrow> world \<Rightarrow> world" where
  "append_text p s w =
     (case fs w p of
        None \<Rightarrow> w\<lparr>fs := (fs w)(p \<mapsto> s)\<rparr>
      | Some old \<Rightarrow> w\<lparr>fs := (fs w)(p \<mapsto> old @ s)\<rparr>)"

text \<open>
  What \<open>p.read_text()\<close> returns for the text a file holds: reading translates the
  line endings CR LF and CR into LF.
\<close>

fun universal_newlines :: "pystr \<Rightarrow> pystr" where
  "universal_newlines [] = []"
| "universal_newlines (c # cs) =
     (if c = CHR 0x0D then
        (case cs of
           [] \<Rightarrow> [CHR 0x0A]
         | d # ds \<Rightarrow>
             if d = CHR 0x0A then CHR 0x0A # universal_newlines ds
             else CHR 0x0A # universal_newlines cs)
      else c # universal_newlines cs)"

section \<open>The generator\<close>

definition DEFAULT_ENTRIES :: "pystr list" where
  "DEFAULT_ENTRIES =
     [''*.pyc'', ''*.bak'', ''*.zip'', ''*.rar'', ''*.7z'', ''*.mp3'', ''*.wav'',
      ''*.sublime-workspace'', ''.hg/'', ''build/'', ''*.hgignore'', ''*.hgtags'',
      ''*dist/'', ''*.egg-info/'', ''traceback.log'', ''__pycache__/'', ''*.log'']"

definition api_url :: "pystr list \<Rightarrow> pystr" where
  "api_url templates =
     ''https://www.toptal.com/developers/gitignore/api/'' @ join '','' templates"

text \<open>
  \<open>fetch_template\<close>: one GET; the body, stripped, split into lines. Any exception of
  the GET is caught and reported, and the empty list is returned; when the report
  itself raises, that exception leaves \<open>fetch_template\<close>.
\<close>

definition fetch_template :: "env \<Rightarrow> pystr list \<Rightarrow> world \<Rightarrow> (exn + pystr list) result" where
  "fetch_template env templates w =
     (case urlopen env (api_url templates) of
        Inr content \<Rightarrow> (Inr (splitlines (strip content)), w)
      | Inl e \<Rightarrow>
          (case console_print env (FetchFailed e) w of
             (None, w') \<Rightarrow> (Inr [], w')
           | (Some e', w') \<Rightarrow> (Inl e', w')))"

text \<open>
  The first statements of \<open>generate\<close>, which build \<open>entries\<close>: the fetched lines when
  \<open>templates\<close> is given and not empty, then the defaults, then \<open>extra_entries\<close> when
  given and not empty.
\<close>

definition fetched :: "env \<Rightarrow> pystr list option \<Rightarrow> world \<Rightarrow> (exn + pystr list) result" where
  "fetched env templates w =
     (case templates of
        None \<Rightarrow> (Inr [], w)
      | Some ts \<Rightarrow> if ts = [] then (Inr [], w) else fetch_template env ts w)"

definition assemble :: "pystr list \<Rightarrow> pystr list option \<Rightarrow> pystr list" where
  "assemble template_lines extra_entries =
     (let entries = [] @ template_lines;
          entries = entries @ DEFAULT_ENTRIES
      in case extra_entries of
           None \<Rightarrow> entries
         | Some es \<Rightarrow> if es = [] then entries else entries @ es)"

text \<open>
  The \<open>try\<close> block of \<open>generate\<close> with its handler: the content is the entries
  joined by newlines and one more newline; it is appended after one newline when
  \<open>append\<close> is set and the file exists, and written as the whole file otherwise; then
  the success panel is printed. An exception of the write or of that print is caught
  and reported; when the report itself raises, that exception leaves \<open>generate\<close>.
\<close>

definition file_content :: "pystr list \<Rightarrow> pystr" where
  "file_content entries = join [CHR 0x0A] entries @ [CHR 0x0A]"

definition generate_write ::
  "env \<Rightarrow> path \<Rightarrow> pystr list \<Rightarrow> bool \<Rightarrow> world \<Rightarrow> exn option result"
where
  "generate_write env gp entries append_flag w =
     (case write_fault env of
        Some (e, left) \<Rightarrow> console_print env (WriteFailed e) (w\<lparr>fs := (fs w)(gp := left)\<rparr>)
      | None \<Rightarrow>
          (let content = file_content entries;
               w' = (if append_flag \<and> exists w gp
                     then append_text gp ([CHR 0x0A] @ content) w
                     else write_text gp content w)
           in case console_print env (Stored gp) w' of
                (None, w'') \<Rightarrow> (None, w'')
              | (Some e, w'') \<Rightarrow> console_print env (WriteFailed e) w''))"

text \<open>
  \<open>generate\<close>. An exception that leaves \<open>fetch_template\<close> leaves \<open>generate\<close> too:
  the call is not inside a \<open>try\<close>.
\<close>

definition generate ::
  "env \<Rightarrow> path \<Rightarrow> pystr list option \<Rightarrow> bool \<Rightarrow> bool \<Rightarrow> pystr list option \<Rightarrow> world
     \<Rightarrow> exn option result"
where
  "generate env p extra_entries append_flag force templates w =
     (case fetched env templates w of
        (Inl e, w0) \<Rightarrow> (Some e, w0)
      | (Inr template_lines, w0) \<Rightarrow>
          (let entries = assemble template_lines extra_entries;
               gp = gitignore_path p
           in if exists w0 gp \<and> \<not> force \<and> \<not> append_flag then
                (let w1 = display (Prompt gp) w0;
                     a = lower (strip (answer env))
                 in if a \<noteq> ''y'' then (None, display Canceled w1)
                    else generate_write env gp entries append_flag w1)
              else generate_write env gp entries append_flag w0))"

text \<open>
  \<open>read_gitignore\<close>: reports that there is no file at the path (this print is not
  inside a \<open>try\<close>); otherwise reads the text and shows it, or reports the exception
  raised by that.
\<close>

definition read_gitignore :: "env \<Rightarrow> path \<Rightarrow> world \<Rightarrow> exn option result" where
  "read_gitignore env p w =
     (let gp = gitignore_path p
      in case fs w gp of
           None \<Rightarrow> console_print env (NotFound gp) w
         | Some stored \<Rightarrow>
             (case read_fault env of
                Some e \<Rightarrow> console_print env (ReadFailed e) w
              | None \<Rightarrow> (None, display (Content (universal_newlines stored)) w)))"

section \<open>The command line\<close>

text \<open>The namespace \<open>parse_args\<close> returns.\<close>

record args =
  args_entries :: "pystr option"
  args_path :: path
  args_data :: "pystr list"
  args_template :: "pystr list option"
  args_append :: bool
  args_force :: bool
  args_read :: bool

text \<open>
  The chain of tests of \<open>main\<close> on the positional argument, after the backslashes
  were replaced: the strings it adds to \<open>args.data\<close>.
\<close>

definition split_entries :: "pystr \<Rightarrow> pystr list" where
  "split_entries e =
     (if contains CHR '','' e then split_sep CHR '','' e
      else if contains CHR 0x0A e then splitlines e
      else if contains CHR '';'' e then split_sep CHR '';'' e
      else if contains CHR '':'' e then split_sep CHR '':'' e
      else if contains CHR ''|'' e then split_sep CHR ''|'' e
      else if contains CHR '' '' e then split_whitespace e
      else if startswith e CHR ''['' \<and> endswith e CHR '']'' then split_sep CHR '','' (slice_1_m1 e)
      else if startswith e CHR ''{'' \<and> endswith e CHR ''}'' then split_sep CHR '','' (slice_1_m1 e)
      else if startswith e CHR 0x22 \<and> endswith e CHR 0x22 then [slice_1_m1 e]
      else if startswith e CHR 0x27 \<and> endswith e CHR 0x27 then [slice_1_m1 e]
      else if startswith e CHR 0x60 \<and> endswith e CHR 0x60 then [slice_1_m1 e]
      else if strip e \<noteq> [] then [strip e]
      else [e])"

text \<open>
  The block \<open>if args.entries:\<close> of \<open>main\<close>. It runs when the positional argument is
  given and not empty: it sets \<open>args.append\<close>, replaces the backslashes of
  \<open>args.entries\<close> and extends \<open>args.data\<close>.
\<close>

definition main_entries :: "args \<Rightarrow> args" where
  "main_entries a =
     (case args_entries a of
        None \<Rightarrow> a
      | Some s \<Rightarrow>
          if s = [] then a
          else (let e = replace (CHR 0x5C) CHR ''/'' s
                in a\<lparr>args_append := True,
                     args_entries := Some e,
                     args_data := args_data a @ split_entries e\<rparr>))"

text \<open>\<open>main\<close> from the parsed arguments on.\<close>

definition main :: "env \<Rightarrow> args \<Rightarrow> world \<Rightarrow> exn option result" where
  "main env a0 w =
     (let a = main_entries a0
      in if args_read a then read_gitignore env (args_path a) w
         else generate env (args_path a) (Some (args_data a)) (args_append a) (args_force a)
                (args_template a) (display Starting w))"

section \<open>Auxiliary facts\<close>

lemma join_snoc: "xs \<noteq> [] \<Longrightarrow> join sep (xs @ [y]) = join sep xs @ sep @ y"
  by (induction sep xs rule: join.induct) auto

lemma assemble_eq:
  "assemble T extra = T @ DEFAULT_ENTRIES @ (case extra of None \<Rightarrow> [] | Some es \<Rightarrow> es)"
  by (simp add: assemble_def Let_def split: option.splits)

lemma console_print_fs: "fs (snd (console_print env m w)) = fs w"
  by (simp add: console_print_def display_def split: option.splits)

lemma fetched_fs: "fs (snd (fetched env t w)) = fs w"
  by (auto simp: fetched_def fetch_template_def console_print_def display_def
      split: option.splits sum.splits)

lemma generate_reached:
  assumes "fetched env templates w = (Inr T, w0)"
  shows "generate env p extra af force templates w =
           (if fs w (gitignore_path p) \<noteq> None \<and> \<not> force \<and> \<not> af
            then (if lower (strip (answer env)) = ''y''
                  then generate_write env (gitignore_path p) (assemble T extra) af
                         (display (Prompt (gitignore_path p)) w0)
                  else (None, display Canceled (display (Prompt (gitignore_path p)) w0)))
            else generate_write env (gitignore_path p) (assemble T extra) af w0)"
    and "fs w0 = fs w"
proof -
  from fetched_fs[of env templates w] assms show f: "fs w0 = fs w" by simp
  with assms show "generate env p extra af force templates w =
           (if fs w (gitignore_path p) \<noteq> None \<and> \<not> force \<and> \<not> af
            then (if lower (strip (answer env)) = ''y''
                  then generate_write env (gitignore_path p) (assemble T extra) af
                         (display (Prompt (gitignore_path p)) w0)
                  else (None, display Canceled (display (Prompt (gitignore_path p)) w0)))
            else generate_write env (gitignore_path p) (assemble T extra) af w0)"
    by (simp add: generate_def Let_def exists_def)
qed

lemma generate_write_fs:
  assumes "write_fault env = None"
  shows "fs (snd (generate_write env gp es af w)) =
           (fs w)(gp \<mapsto> (case fs w gp of
                             None \<Rightarrow> file_content es
                           | Some old \<Rightarrow> if af then old @ [CHR 0x0A] @ file_content es
                                         else file_content es))"
proof -
  let ?w' = "if af \<and> exists w gp then append_text gp ([CHR 0x0A] @ file_content es) w
             else write_text gp (file_content es) w"
  have a: "fs (snd (generate_write env gp es af w)) = fs ?w'"
  proof (cases "print_fault env (Stored gp)")
    case None
    with assms show ?thesis
      by (simp add: generate_write_def Let_def console_print_def display_def)
  next
    case (Some e)
    with assms have "generate_write env gp es af w = console_print env (WriteFailed e) ?w'"
      by (simp add: generate_write_def Let_def console_print_def)
    then show ?thesis by (simp only: console_print_fs)
  qed
  show ?thesis
    unfolding a
    by (auto simp: exists_def append_text_def write_text_def split: option.splits)
qed

lemma generate_write_msgs:
  "\<exists>ms. console (snd (generate_write env gp es af w)) = console w @ ms \<and>
        (\<forall>q. Prompt q \<notin> set ms) \<and> Canceled \<notin> set ms \<and>
        (Stored gp \<in> set ms \<longrightarrow> write_fault env = None)"
  by (auto simp: generate_write_def Let_def console_print_def display_def exists_def
      append_text_def write_text_def split: option.splits)

lemma generate_write_ok:
  assumes "write_fault env = None" and "print_fault env (Stored gp) = None"
  shows "fst (generate_write env gp es af w) = None"
    and "console (snd (generate_write env gp es af w)) = console w @ [Stored gp]"
  using assms
  by (auto simp: generate_write_def Let_def console_print_def display_def exists_def
      append_text_def write_text_def split: option.splits)

lemma lower_char_y_imp:
  assumes h: "lower_char c = CHR ''y''"
  shows "c = CHR ''y'' \<or> c = CHR ''Y''"
proof (cases "(65 \<le> (of_char c :: nat) \<and> (of_char c :: nat) \<le> 90) \<or>
              (192 \<le> (of_char c :: nat) \<and> (of_char c :: nat) \<le> 222 \<and> (of_char c :: nat) \<noteq> 215)")
  case True
  define n where "n = (of_char c :: nat)"
  from True have up: "n \<le> 222" by (auto simp: n_def)
  from True h have "char_of (n + 32) = CHR ''y''"
    by (simp add: lower_char_def Let_def n_def)
  then have "(of_char (char_of (n + 32)) :: nat) = of_char CHR ''y''"
    by (rule arg_cong)
  then have "(n + 32) mod 256 = 121" by simp
  moreover from up have "(n + 32) mod 256 = n + 32" by simp
  ultimately have "n = 89" by linarith
  then have "(of_char c :: nat) = of_char CHR ''Y''" by (simp add: n_def)
  then have "c = CHR ''Y''" by (rule of_char_eqI)
  then show ?thesis by simp
next
  case False
  with h show ?thesis by (simp add: lower_char_def Let_def)
qed

lemma lower_char_y: "lower_char c = CHR ''y'' \<longleftrightarrow> c = CHR ''y'' \<or> c = CHR ''Y''"
proof
  assume "lower_char c = CHR ''y''"
  then show "c = CHR ''y'' \<or> c = CHR ''Y''" by (rule lower_char_y_imp)
next
  have "(of_char (char_of (121 :: nat) :: char) :: nat) = of_char CHR ''y''" by simp
  then have y: "char_of (121 :: nat) = CHR ''y''" by (rule of_char_eqI)
  assume "c = CHR ''y'' \<or> c = CHR ''Y''"
  then show "lower_char c = CHR ''y''"
    using y by (auto simp: lower_char_def Let_def)
qed

lemma lower_y: "lower s = ''y'' \<longleftrightarrow> s = ''y'' \<or> s = ''Y''"
proof (cases s)
  case Nil
  then show ?thesis by (simp add: lower_def)
next
  case (Cons c cs)
  then show ?thesis by (cases cs) (auto simp: lower_def lower_char_y)
qed

lemma islinebreak_isspace: "islinebreak c \<Longrightarrow> isspace c"
  by (auto simp: islinebreak_def isspace_def)

lemma CR_linebreak: "islinebreak (CHR 0x0D)"
  by (simp add: islinebreak_def)

lemma LF_linebreak: "islinebreak (CHR 0x0A)"
  by (simp add: islinebreak_def)

lemma splitlines_last:
  "s \<noteq> [] \<Longrightarrow> \<not> islinebreak (last s) \<Longrightarrow>
   splitlines s \<noteq> [] \<and> last (splitlines s) \<noteq> [] \<and> last (last (splitlines s)) = last s"
proof (induction "length s" arbitrary: s rule: less_induct)
  case less
  let ?P = "\<lambda>t. splitlines t \<noteq> [] \<and> last (splitlines t) \<noteq> [] \<and> last (last (splitlines t)) = last s"
  from less.prems(1) obtain c cs where s: "s = c # cs" by (cases s) auto
  show ?case
  proof (cases cs)
    case Nil
    with less.prems(2) s have "\<not> islinebreak c" by simp
    with CR_linebreak have "c \<noteq> CHR 0x0D" by auto
    with \<open>\<not> islinebreak c\<close> s Nil show ?thesis by simp
  next
    case (Cons d ds)
    with s less.prems(2) have lcs: "\<not> islinebreak (last cs)" by simp
    from Cons have ne: "cs \<noteq> []" by simp
    from s Cons have lastcs: "last s = last cs" by simp
    have ih_cs: "splitlines cs \<noteq> [] \<and> last (splitlines cs) \<noteq> [] \<and>
                 last (last (splitlines cs)) = last cs"
      using less.hyps[of cs] s ne lcs by simp
    show ?thesis
    proof (cases "c = CHR 0x0D")
      case cr: True
      show ?thesis
      proof (cases "d = CHR 0x0A")
        case True
        have dsne: "ds \<noteq> []"
        proof
          assume "ds = []"
          with Cons True have "last cs = CHR 0x0A" by simp
          with lcs LF_linebreak show False by simp
        qed
        with Cons have lds: "last cs = last ds" by simp
        have "splitlines ds \<noteq> [] \<and> last (splitlines ds) \<noteq> [] \<and>
              last (last (splitlines ds)) = last ds"
          using less.hyps[of ds] s Cons dsne lcs lds by simp
        moreover have "splitlines s = [] # splitlines ds"
          using s Cons cr True by simp
        ultimately show ?thesis using lastcs lds by simp
      next
        case False
        have "splitlines s = [] # splitlines cs"
          using s Cons cr False by simp
        with ih_cs lastcs show ?thesis by simp
      qed
    next
      case ncr: False
      show ?thesis
      proof (cases "islinebreak c")
        case True
        have "splitlines s = [] # splitlines cs"
          using s ncr True by simp
        with ih_cs lastcs show ?thesis by simp
      next
        case False
        from ih_cs obtain l ls where sp: "splitlines cs = l # ls"
          by (cases "splitlines cs") auto
        have "splitlines s = (c # l) # ls"
          using s ncr False sp by simp
        with ih_cs lastcs sp show ?thesis by (cases ls) auto
      qed
    qed
  qed
qed

lemma splitlines_hd:
  assumes "s \<noteq> []" and "\<not> islinebreak (hd s)"
  shows "splitlines s \<noteq> [] \<and> hd (splitlines s) \<noteq> [] \<and> hd (hd (splitlines s)) = hd s"
proof -
  from assms(1) obtain c cs where s: "s = c # cs" by (cases s) auto
  with assms(2) have nb: "\<not> islinebreak c" by simp
  with CR_linebreak have ncr: "c \<noteq> CHR 0x0D" by auto
  have "splitlines s = (case splitlines cs of [] \<Rightarrow> [[c]] | l # ls \<Rightarrow> (c # l) # ls)"
    using s nb ncr by (simp del: splitlines.simps add: splitlines.simps(2)[of c cs])
  then show ?thesis using s by (cases "splitlines cs") simp_all
qed

lemma rstrip_hd: "rstrip s \<noteq> [] \<Longrightarrow> hd (rstrip s) = hd s"
proof -
  have "rev s = takeWhile isspace (rev s) @ dropWhile isspace (rev s)" by simp
  then have "s = rev (dropWhile isspace (rev s)) @ rev (takeWhile isspace (rev s))"
    by (metis rev_append rev_rev_ident)
  then have "s = rstrip s @ rev (takeWhile isspace (rev s))" by (simp add: rstrip_def)
  then show "rstrip s \<noteq> [] \<Longrightarrow> hd (rstrip s) = hd s" by (metis hd_append2)
qed

lemma strip_ends:
  assumes "strip s \<noteq> []"
  shows "\<not> isspace (hd (strip s))" and "\<not> isspace (last (strip s))"
proof -
  from assms have l: "lstrip s \<noteq> []" by (auto simp: strip_def rstrip_def)
  then have "\<not> isspace (hd (lstrip s))" by (simp add: lstrip_def hd_dropWhile)
  moreover from assms have "hd (strip s) = hd (lstrip s)" by (simp add: strip_def rstrip_hd)
  ultimately show "\<not> isspace (hd (strip s))" by simp
  from assms have "dropWhile isspace (rev (lstrip s)) \<noteq> []" by (simp add: strip_def rstrip_def)
  then have "\<not> isspace (hd (dropWhile isspace (rev (lstrip s))))" by (rule hd_dropWhile)
  with assms show "\<not> isspace (last (strip s))"
    by (simp add: strip_def rstrip_def last_rev)
qed

lemma rstrip_id: "l \<noteq> [] \<Longrightarrow> \<not> isspace (last l) \<Longrightarrow> rstrip l = l"
  by (cases "rev l") (auto simp: rstrip_def last_rev dest: arg_cong[where f=rev])

lemma lstrip_id: "l \<noteq> [] \<Longrightarrow> \<not> isspace (hd l) \<Longrightarrow> lstrip l = l"
  by (cases l) (auto simp: lstrip_def)

lemma generate_fs_written:
  assumes f: "fetched env templates w = (Inr T, w0)"
      and wf: "write_fault env = None"
      and r: "fs w (gitignore_path p) = None \<or> force \<or> af \<or> lower (strip (answer env)) = ''y''"
  shows "fs (snd (generate env p extra af force templates w)) =
           (fs w)(gitignore_path p \<mapsto>
              (case fs w (gitignore_path p) of
                 None \<Rightarrow> file_content (assemble T extra)
               | Some C \<Rightarrow> if af then C @ [CHR 0x0A] @ file_content (assemble T extra)
                           else file_content (assemble T extra)))"
proof -
  let ?gp = "gitignore_path p"
  have f0: "fs w0 = fs w" by (rule generate_reached(2)[OF f])
  have f1: "fs (display (Prompt ?gp) w0) = fs w" by (simp add: display_def f0)
  show ?thesis
  proof (cases "fs w ?gp \<noteq> None \<and> \<not> force \<and> \<not> af")
    case False
    then have "generate env p extra af force templates w =
               generate_write env ?gp (assemble T extra) af w0"
      by (simp only: generate_reached(1)[OF f] if_False)
    then show ?thesis by (simp add: generate_write_fs[OF wf] f0)
  next
    case True
    with r have y: "lower (strip (answer env)) = ''y''" by auto
    from True y have "generate env p extra af force templates w =
               generate_write env ?gp (assemble T extra) af (display (Prompt ?gp) w0)"
      by (simp add: generate_reached(1)[OF f])
    then show ?thesis by (simp add: generate_write_fs[OF wf] f1)
  qed
qed

lemma generate_stored_reached:
  assumes f: "fetched env templates w = (Inr T, w0)"
      and s: "Stored (gitignore_path p) \<in>
                set (drop (length (console w0))
                      (console (snd (generate env p extra af force templates w))))"
  shows "write_fault env = None \<and>
         (fs w (gitignore_path p) = None \<or> force \<or> af \<or> lower (strip (answer env)) = ''y'')"
proof -
  let ?gp = "gitignore_path p"
  let ?es = "assemble T extra"
  show ?thesis
  proof (cases "fs w ?gp \<noteq> None \<and> \<not> force \<and> \<not> af")
    case False
    then have g: "generate env p extra af force templates w = generate_write env ?gp ?es af w0"
      by (simp only: generate_reached(1)[OF f] if_False)
    from generate_write_msgs[of env ?gp ?es af w0] obtain ms where
      m: "console (snd (generate_write env ?gp ?es af w0)) = console w0 @ ms"
      and st: "Stored ?gp \<in> set ms \<longrightarrow> write_fault env = None" by blast
    from s g m have "Stored ?gp \<in> set ms" by simp
    with st False show ?thesis by blast
  next
    case True
    show ?thesis
    proof (cases "lower (strip (answer env)) = ''y''")
      case y: True
      let ?w1 = "display (Prompt ?gp) w0"
      from True y have g: "generate env p extra af force templates w =
                           generate_write env ?gp ?es af ?w1"
        by (simp add: generate_reached(1)[OF f])
      from generate_write_msgs[of env ?gp ?es af ?w1] obtain ms where
        m: "console (snd (generate_write env ?gp ?es af ?w1)) = console ?w1 @ ms"
        and st: "Stored ?gp \<in> set ms \<longrightarrow> write_fault env = None" by blast
      from s g m have "Stored ?gp \<in> set ms" by (simp add: display_def)
      with st y show ?thesis by blast
    next
      case n: False
      from True n have "generate env p extra af force templates w =
                        (None, display Canceled (display (Prompt ?gp) w0))"
        by (simp add: generate_reached(1)[OF f])
      with s show ?thesis by (simp add: display_def)
    qed
  qed
qed


lemma fetch_failure_reported:
  assumes "urlopen env (api_url ts) = Inl e" and "ts \<noteq> []"
      and "print_fault env (FetchFailed e) = None"
  shows "fetch_template env ts w = (Inr [], display (FetchFailed e) w)"
    and "generate env p extra af force (Some ts) w =
         generate env p extra af force None (display (FetchFailed e) w)"
proof -
  from assms show a: "fetch_template env ts w = (Inr [], display (FetchFailed e) w)"
    by (simp add: fetch_template_def console_print_def)
  with assms show "generate env p extra af force (Some ts) w =
         generate env p extra af force None (display (FetchFailed e) w)"
    by (simp add: generate_def fetched_def)
qed

section \<open>Properties of the program\<close>

subsection \<open>What \<open>generate\<close> writes\<close>

text \<open>
  Claim C1. For all fetched template lines \<open>T\<close> and extra entries \<open>E\<close>, the entries
  are \<open>T\<close>, then the defaults, then \<open>E\<close>, as they come: nothing is removed, reordered
  or checked. Whenever \<open>generate\<close> writes, that is, the write is reached and does not
  fail (as it is whenever the run prints its success panel), the content written is
  these entries joined by newlines and one more newline: it is the whole file, or, when
  appending to a file that is there, it follows the old content and one newline (C2).
\<close>

theorem generate_writes_templates_defaults_extras:
  assumes "fetched env templates w = (Inr T, w0)"
      and "(write_fault env = None \<and>
            (fs w (gitignore_path p) = None \<or> force \<or> af \<or>
             lower (strip (answer env)) = ''y'')) \<or>
           Stored (gitignore_path p) \<in>
             set (drop (length (console w0))
                   (console (snd (generate env p (Some E) af force templates w))))"
  shows "assemble T (Some E) = T @ DEFAULT_ENTRIES @ E \<and>
         fs (snd (generate env p (Some E) af force templates w)) (gitignore_path p) =
           Some (case fs w (gitignore_path p) of
                   None \<Rightarrow> join [CHR 0x0A] (T @ DEFAULT_ENTRIES @ E) @ [CHR 0x0A]
                 | Some C \<Rightarrow>
                     if af then C @ [CHR 0x0A] @ join [CHR 0x0A] (T @ DEFAULT_ENTRIES @ E) @ [CHR 0x0A]
                     else join [CHR 0x0A] (T @ DEFAULT_ENTRIES @ E) @ [CHR 0x0A])"
proof -
  from assms(2) generate_stored_reached[OF assms(1)]
  have r: "write_fault env = None"
    "fs w (gitignore_path p) = None \<or> force \<or> af \<or> lower (strip (answer env)) = ''y''"
    by blast+
  from generate_fs_written[OF assms(1) r]
  show ?thesis by (simp add: assemble_eq file_content_def split: option.splits)
qed

theorem generate_writes_templates_defaults_extras_witness:
  "fetched \<lparr>urlopen = server (Inr ''x\<newline>y''), answer = ''n'', write_fault = None,
      read_fault = None, print_fault = renders_all\<rparr>
      (Some [''python'']) \<lparr>fs = Map.empty, console = []\<rparr> = (Inr [''x'', ''y''], \<lparr>fs = Map.empty, console = []\<rparr>) \<and>
   write_fault \<lparr>urlopen = server (Inr ''x\<newline>y''), answer = ''n'', write_fault = None,
      read_fault = None, print_fault = renders_all\<rparr> = None \<and>
   fs \<lparr>fs = Map.empty, console = []\<rparr> (gitignore_path [''.'']) = None \<and>
   fs (snd (generate \<lparr>urlopen = server (Inr ''x\<newline>y''), answer = ''n'', write_fault = None,
      read_fault = None, print_fault = renders_all\<rparr>
         [''.''] (Some [''b'', ''a'', ''b'']) False False (Some [''python''])
         \<lparr>fs = Map.empty, console = []\<rparr>)) (gitignore_path [''.'']) =
     Some (''x\<newline>y\<newline>*.pyc\<newline>*.bak\<newline>*.zip\<newline>*.rar\<newline>'' @
           ''*.7z\<newline>*.mp3\<newline>*.wav\<newline>*.sublime-workspace\<newline>.hg/\<newline>'' @
           ''build/\<newline>*.hgignore\<newline>*.hgtags\<newline>*dist/\<newline>'' @
           ''*.egg-info/\<newline>traceback.log\<newline>__pycache__/\<newline>*.log\<newline>'' @
           ''b\<newline>a\<newline>b\<newline>'')"
proof -
  let ?env = "\<lparr>urlopen = server (Inr ''x\<newline>y''), answer = ''n'', write_fault = None,
      read_fault = None, print_fault = renders_all\<rparr>"
  let ?w = "\<lparr>fs = Map.empty, console = []\<rparr>"
  have h1: "fetched ?env (Some [''python'']) ?w = (Inr [''x'', ''y''], ?w)"
    by (simp add: fetched_def fetch_template_def server_def strip_def lstrip_def rstrip_def
        isspace_def islinebreak_def)
  have h2: "write_fault ?env = None" by simp
  have h3: "fs ?w (gitignore_path [''.'']) = None" by simp
  from h2 h3 have h: "(write_fault ?env = None \<and>
        (fs ?w (gitignore_path [''.'']) = None \<or> False \<or> False \<or>
         lower (strip (answer ?env)) = ''y'')) \<or>
       Stored (gitignore_path [''.'']) \<in>
         set (drop (length (console ?w))
               (console (snd (generate ?env [''.''] (Some [''b'', ''a'', ''b'']) False False
                  (Some [''python'']) ?w))))"
    by blast
  from generate_writes_templates_defaults_extras[OF h1 h] h1 h2 h3
  show ?thesis by (simp add: DEFAULT_ENTRIES_def gitignore_path_def)
qed

subsection \<open>Appending keeps the old content\<close>

text \<open>
  Claim C2. When \<open>.gitignore\<close> holds \<open>C\<close> and \<open>generate\<close> is called with
  \<open>append=True\<close>, the first statements run through and the write does not fail, the
  file afterwards holds \<open>C\<close>, one newline, the entries joined by newlines, and one
  more newline. No other file changes; the run goes from the fetch straight to the
  write, and when the success panel is rendered, it is all that is printed after the
  fetch.
\<close>

theorem generate_append_keeps_prior_content:
  assumes "fs w (gitignore_path p) = Some C" and "write_fault env = None"
      and "fetched env templates w = (Inr T, w0)"
  shows "fs (snd (generate env p extra True force templates w)) (gitignore_path p) =
           Some (C @ [CHR 0x0A] @ join [CHR 0x0A] (assemble T extra) @ [CHR 0x0A]) \<and>
         (\<forall>q. q \<noteq> gitignore_path p \<longrightarrow>
              fs (snd (generate env p extra True force templates w)) q = fs w q) \<and>
         generate env p extra True force templates w =
           generate_write env (gitignore_path p) (assemble T extra) True w0 \<and>
         (print_fault env (Stored (gitignore_path p)) = None \<longrightarrow>
            fst (generate env p extra True force templates w) = None \<and>
            console (snd (generate env p extra True force templates w)) =
              console w0 @ [Stored (gitignore_path p)])"
proof -
  have g: "generate env p extra True force templates w =
           generate_write env (gitignore_path p) (assemble T extra) True w0"
    by (simp add: generate_reached(1)[OF assms(3)])
  from generate_fs_written[OF assms(3) assms(2), of p force True extra] assms(1)
  have "fs (snd (generate env p extra True force templates w)) =
        (fs w)(gitignore_path p \<mapsto> C @ [CHR 0x0A] @ file_content (assemble T extra))"
    by simp
  then show ?thesis
    using g generate_write_ok[OF assms(2)]
    by (simp add: file_content_def)
qed

theorem generate_append_keeps_prior_content_witness:
  "fs \<lparr>fs = [[''.'', ''.gitignore''] \<mapsto> ''old\<newline>''], console = []\<rparr>
      (gitignore_path [''.'']) = Some ''old\<newline>'' \<and>
   write_fault \<lparr>urlopen = server (Inl (Exception ''down'')), answer = ''n'', write_fault = None,
      read_fault = None, print_fault = renders_all\<rparr> = None \<and>
   fetched \<lparr>urlopen = server (Inl (Exception ''down'')), answer = ''n'', write_fault = None,
      read_fault = None, print_fault = renders_all\<rparr> None
      \<lparr>fs = [[''.'', ''.gitignore''] \<mapsto> ''old\<newline>''], console = []\<rparr> =
     (Inr [], \<lparr>fs = [[''.'', ''.gitignore''] \<mapsto> ''old\<newline>''], console = []\<rparr>) \<and>
   fs (snd (generate \<lparr>urlopen = server (Inl (Exception ''down'')), answer = ''n'', write_fault = None,
      read_fault = None, print_fault = renders_all\<rparr>
         [''.''] (Some [''e'']) True False None
         \<lparr>fs = [[''.'', ''.gitignore''] \<mapsto> ''old\<newline>''], console = []\<rparr>))
      (gitignore_path [''.'']) =
     Some (''old\<newline>\<newline>*.pyc\<newline>*.bak\<newline>*.zip\<newline>*.rar\<newline>'' @
           ''*.7z\<newline>*.mp3\<newline>*.wav\<newline>*.sublime-workspace\<newline>.hg/\<newline>'' @
           ''build/\<newline>*.hgignore\<newline>*.hgtags\<newline>*dist/\<newline>'' @
           ''*.egg-info/\<newline>traceback.log\<newline>__pycache__/\<newline>*.log\<newline>'' @
           ''e\<newline>'')"
proof -
  let ?env = "\<lparr>urlopen = server (Inl (Exception ''down'')), answer = ''n'', write_fault = None,
      read_fault = None, print_fault = renders_all\<rparr>"
  let ?w = "\<lparr>fs = [[''.'', ''.gitignore''] \<mapsto> ''old\<newline>''], console = []\<rparr>"
  have h1: "fs ?w (gitignore_path [''.'']) = Some ''old\<newline>''"
    by (simp add: gitignore_path_def)
  have h2: "write_fault ?env = None" by simp
  have h3: "fetched ?env None ?w = (Inr [], ?w)" by (simp add: fetched_def)
  from generate_append_keeps_prior_content[OF h1 h2 h3, of "Some [''e'']" False, THEN conjunct1]
       h1 h2 h3
  show ?thesis
    by (simp add: assemble_def DEFAULT_ENTRIES_def gitignore_path_def)
qed

subsection \<open>Force overwrites without asking\<close>

text \<open>
  Claim C3. When \<open>.gitignore\<close> holds \<open>C\<close> and \<open>generate\<close> is called with
  \<open>force=True\<close> and \<open>append=False\<close>, the first statements run through and the write
  does not fail, the file afterwards holds the entries joined by newlines and one more
  newline, and nothing of \<open>C\<close>. No question is asked, whatever the user would
  answer: the run goes from the fetch straight to the write, and when the success
  panel is rendered, it is all that is printed after the fetch.
\<close>

theorem generate_force_discards_prior_content:
  assumes "fs w (gitignore_path p) = Some C" and "write_fault env = None"
      and "fetched env templates w = (Inr T, w0)"
  shows "fs (snd (generate env p extra False True templates w)) (gitignore_path p) =
           Some (join [CHR 0x0A] (assemble T extra) @ [CHR 0x0A]) \<and>
         (\<forall>q. q \<noteq> gitignore_path p \<longrightarrow>
              fs (snd (generate env p extra False True templates w)) q = fs w q) \<and>
         generate env p extra False True templates w =
           generate_write env (gitignore_path p) (assemble T extra) False w0 \<and>
         (\<exists>ms. console (snd (generate env p extra False True templates w)) = console w0 @ ms \<and>
               (\<forall>q. Prompt q \<notin> set ms)) \<and>
         (print_fault env (Stored (gitignore_path p)) = None \<longrightarrow>
            fst (generate env p extra False True templates w) = None \<and>
            console (snd (generate env p extra False True templates w)) =
              console w0 @ [Stored (gitignore_path p)])"
proof -
  have g: "generate env p extra False True templates w =
           generate_write env (gitignore_path p) (assemble T extra) False w0"
    by (simp add: generate_reached(1)[OF assms(3)])
  from generate_fs_written[OF assms(3) assms(2), of p True False extra] assms(1)
  have "fs (snd (generate env p extra False True templates w)) =
        (fs w)(gitignore_path p \<mapsto> file_content (assemble T extra))"
    by simp
  moreover from generate_write_msgs[of env "gitignore_path p" "assemble T extra" False w0]
  have "\<exists>ms. console (snd (generate env p extra False True templates w)) = console w0 @ ms \<and>
               (\<forall>q. Prompt q \<notin> set ms)"
    unfolding g by blast
  ultimately show ?thesis
    using g generate_write_ok[OF assms(2)]
    by (simp add: file_content_def)
qed

theorem generate_force_discards_prior_content_witness:
  "fs \<lparr>fs = [[''.'', ''.gitignore''] \<mapsto> ''old\<newline>''], console = []\<rparr>
      (gitignore_path [''.'']) = Some ''old\<newline>'' \<and>
   write_fault \<lparr>urlopen = server (Inl (Exception ''down'')), answer = ''n'', write_fault = None,
      read_fault = None, print_fault = renders_all\<rparr> = None \<and>
   fetched \<lparr>urlopen = server (Inl (Exception ''down'')), answer = ''n'', write_fault = None,
      read_fault = None, print_fault = renders_all\<rparr> None
      \<lparr>fs = [[''.'', ''.gitignore''] \<mapsto> ''old\<newline>''], console = []\<rparr> =
     (Inr [], \<lparr>fs = [[''.'', ''.gitignore''] \<mapsto> ''old\<newline>''], console = []\<rparr>) \<and>
   print_fault \<lparr>urlopen = server (Inl (Exception ''down'')), answer = ''n'', write_fault = None,
      read_fault = None, print_fault = renders_all\<rparr> (Stored (gitignore_path [''.''])) = None \<and>
   fs (snd (generate \<lparr>urlopen = server (Inl (Exception ''down'')), answer = ''n'', write_fault = None,
      read_fault = None, print_fault = renders_all\<rparr>
         [''.''] (Some [''e'']) False True None
         \<lparr>fs = [[''.'', ''.gitignore''] \<mapsto> ''old\<newline>''], console = []\<rparr>))
      (gitignore_path [''.'']) =
     Some (''*.pyc\<newline>*.bak\<newline>*.zip\<newline>*.rar\<newline>*.7z\<newline>'' @
           ''*.mp3\<newline>*.wav\<newline>*.sublime-workspace\<newline>.hg/\<newline>'' @
           ''build/\<newline>*.hgignore\<newline>*.hgtags\<newline>*dist/\<newline>'' @
           ''*.egg-info/\<newline>traceback.log\<newline>__pycache__/\<newline>*.log\<newline>'' @
           ''e\<newline>'') \<and>
   console (snd (generate \<lparr>urlopen = server (Inl (Exception ''down'')), answer = ''n'', write_fault = None,
      read_fault = None, print_fault = renders_all\<rparr>
         [''.''] (Some [''e'']) False True None
         \<lparr>fs = [[''.'', ''.gitignore''] \<mapsto> ''old\<newline>''], console = []\<rparr>)) =
     [Stored [''.'', ''.gitignore'']]"
proof -
  let ?env = "\<lparr>urlopen = server (Inl (Exception ''down'')), answer = ''n'', write_fault = None,
      read_fault = None, print_fault = renders_all\<rparr>"
  let ?w = "\<lparr>fs = [[''.'', ''.gitignore''] \<mapsto> ''old\<newline>''], console = []\<rparr>"
  have h1: "fs ?w (gitignore_path [''.'']) = Some ''old\<newline>''"
    by (simp add: gitignore_path_def)
  have h2: "write_fault ?env = None" by simp
  have h3: "fetched ?env None ?w = (Inr [], ?w)" by (simp add: fetched_def)
  have h4: "print_fault ?env (Stored (gitignore_path [''.''])) = None"
    by (simp add: renders_all_def)
  note t = generate_force_discards_prior_content[OF h1 h2 h3, of "Some [''e'']"]
  from t[THEN conjunct1]
       t[THEN conjunct2, THEN conjunct2, THEN conjunct2, THEN conjunct2, THEN mp, OF h4]
       h1 h2 h3 h4
  show ?thesis
    by (simp add: assemble_def DEFAULT_ENTRIES_def gitignore_path_def)
qed

subsection \<open>The overwrite question\<close>

text \<open>
  Claim C4. When \<open>.gitignore\<close> is there, \<open>generate\<close> is called with \<open>force=False\<close>
  and \<open>append=False\<close> and the first statements run through, the question is asked.
  If the answer, stripped and in lower case, is not \<open>y\<close>, the run prints the
  cancellation notice and ends with every file as it was. If it is \<open>y\<close>, the run
  goes on to the write. So the write is reached exactly when the stripped answer is
  \<open>y\<close> or \<open>Y\<close>.
\<close>

theorem generate_prompt_only_y_proceeds:
  assumes "fs w (gitignore_path p) = Some C"
      and "fetched env templates w = (Inr T, w0)"
  shows "(lower (strip (answer env)) \<noteq> ''y'' \<longrightarrow>
            generate env p extra False False templates w =
              (None, display Canceled (display (Prompt (gitignore_path p)) w0)) \<and>
            fs (snd (generate env p extra False False templates w)) = fs w) \<and>
         (lower (strip (answer env)) = ''y'' \<longrightarrow>
            generate env p extra False False templates w =
              generate_write env (gitignore_path p) (assemble T extra) False
                (display (Prompt (gitignore_path p)) w0)) \<and>
         (last (console (snd (generate env p extra False False templates w))) = Canceled
            \<longleftrightarrow> lower (strip (answer env)) \<noteq> ''y'') \<and>
         (lower (strip (answer env)) = ''y''
            \<longleftrightarrow> strip (answer env) = ''y'' \<or> strip (answer env) = ''Y'')"
proof -
  let ?gp = "gitignore_path p"
  let ?w1 = "display (Prompt ?gp) w0"
  have nc: "last (console (snd (generate_write env ?gp (assemble T extra) False ?w1))) \<noteq> Canceled"
  proof -
    from generate_write_msgs[of env ?gp "assemble T extra" False ?w1] obtain ms where
      m: "console (snd (generate_write env ?gp (assemble T extra) False ?w1)) = console ?w1 @ ms"
      and c: "Canceled \<notin> set ms" by blast
    show ?thesis
    proof (cases "ms = []")
      case True
      with m show ?thesis by (simp add: display_def)
    next
      case False
      with m have "last (console (snd (generate_write env ?gp (assemble T extra) False ?w1))) = last ms"
        by simp
      with c False show ?thesis using last_in_set by metis
    qed
  qed
  show ?thesis
    using assms(1) nc generate_reached(2)[OF assms(2)]
    by (simp add: generate_reached(1)[OF assms(2)] display_def lower_y)
qed

theorem generate_prompt_only_y_proceeds_witness:
  "fs \<lparr>fs = [[''.'', ''.gitignore''] \<mapsto> ''old\<newline>''], console = []\<rparr>
      (gitignore_path [''.'']) = Some ''old\<newline>'' \<and>
   fetched \<lparr>urlopen = server (Inl (Exception ''down'')), answer = ''no'', write_fault = None,
      read_fault = None, print_fault = renders_all\<rparr> None
      \<lparr>fs = [[''.'', ''.gitignore''] \<mapsto> ''old\<newline>''], console = []\<rparr> =
     (Inr [], \<lparr>fs = [[''.'', ''.gitignore''] \<mapsto> ''old\<newline>''], console = []\<rparr>) \<and>
   lower (strip ''no'') \<noteq> ''y'' \<and>
   generate \<lparr>urlopen = server (Inl (Exception ''down'')), answer = ''no'', write_fault = None,
      read_fault = None, print_fault = renders_all\<rparr>
       [''.''] (Some [''e'']) False False None
       \<lparr>fs = [[''.'', ''.gitignore''] \<mapsto> ''old\<newline>''], console = []\<rparr> =
     (None, \<lparr>fs = [[''.'', ''.gitignore''] \<mapsto> ''old\<newline>''],
        console = [Prompt [''.'', ''.gitignore''], Canceled]\<rparr>) \<and>
   lower (strip '' Y '') = ''y'' \<and>
   fs (snd (generate \<lparr>urlopen = server (Inl (Exception ''down'')), answer = '' Y '', write_fault = None,
      read_fault = None, print_fault = renders_all\<rparr>
       [''.''] (Some [''e'']) False False None
       \<lparr>fs = [[''.'', ''.gitignore''] \<mapsto> ''old\<newline>''], console = []\<rparr>))
      (gitignore_path [''.'']) =
     Some (''*.pyc\<newline>*.bak\<newline>*.zip\<newline>*.rar\<newline>*.7z\<newline>'' @
           ''*.mp3\<newline>*.wav\<newline>*.sublime-workspace\<newline>.hg/\<newline>'' @
           ''build/\<newline>*.hgignore\<newline>*.hgtags\<newline>*dist/\<newline>'' @
           ''*.egg-info/\<newline>traceback.log\<newline>__pycache__/\<newline>*.log\<newline>'' @
           ''e\<newline>'')"
proof -
  let ?envn = "\<lparr>urlopen = server (Inl (Exception ''down'')), answer = ''no'', write_fault = None,
      read_fault = None, print_fault = renders_all\<rparr>"
  let ?envy = "\<lparr>urlopen = server (Inl (Exception ''down'')), answer = '' Y '', write_fault = None,
      read_fault = None, print_fault = renders_all\<rparr>"
  let ?w = "\<lparr>fs = [[''.'', ''.gitignore''] \<mapsto> ''old\<newline>''], console = []\<rparr>"
  have h: "fs ?w (gitignore_path [''.'']) = Some ''old\<newline>''"
    by (simp add: gitignore_path_def)
  have fn: "fetched ?envn None ?w = (Inr [], ?w)" and fy: "fetched ?envy None ?w = (Inr [], ?w)"
    by (simp_all add: fetched_def)
  have sn: "strip ''no'' = ''no''" and sy: "strip '' Y '' = ''Y''"
    by (simp_all add: strip_def lstrip_def rstrip_def isspace_def)
  have n: "lower (strip ''no'') \<noteq> ''y''" by (simp add: sn lower_y)
  have y: "lower (strip '' Y '') = ''y''" by (simp add: sy lower_y)
  from generate_prompt_only_y_proceeds[OF h fn, of "Some [''e'']", THEN conjunct1] h n
  have a: "generate ?envn [''.''] (Some [''e'']) False False None ?w =
           (None, \<lparr>fs = [[''.'', ''.gitignore''] \<mapsto> ''old\<newline>''],
              console = [Prompt [''.'', ''.gitignore''], Canceled]\<rparr>)"
    by (simp add: display_def gitignore_path_def)
  from generate_prompt_only_y_proceeds[OF h fy, of "Some [''e'']", THEN conjunct2, THEN conjunct1] h y
  have "generate ?envy [''.''] (Some [''e'']) False False None ?w =
        generate_write ?envy (gitignore_path [''.'']) (assemble [] (Some [''e''])) False
          (display (Prompt (gitignore_path [''.''])) ?w)"
    by simp
  then have b: "fs (snd (generate ?envy [''.''] (Some [''e'']) False False None ?w))
        (gitignore_path [''.'']) = Some (''*.pyc\<newline>*.bak\<newline>*.zip\<newline>*.rar\<newline>*.7z\<newline>'' @
           ''*.mp3\<newline>*.wav\<newline>*.sublime-workspace\<newline>.hg/\<newline>'' @
           ''build/\<newline>*.hgignore\<newline>*.hgtags\<newline>*dist/\<newline>'' @
           ''*.egg-info/\<newline>traceback.log\<newline>__pycache__/\<newline>*.log\<newline>'' @
           ''e\<newline>'')"
    by (simp add: generate_write_def console_print_def display_def renders_all_def
        write_text_def exists_def assemble_def file_content_def DEFAULT_ENTRIES_def
        gitignore_path_def Let_def)
  from a b h fn n y show ?thesis by simp
qed

subsection \<open>A failed fetch\<close>

text \<open>
  Claim C5 says that after any failure of the fetch \<open>fetch_template\<close> returns the
  empty list and no exception leaves \<open>generate\<close>. The handler of \<open>fetch_template\<close>
  puts the text of the exception into the markup it prints. For the template name
  \<open>a [/b]\<close> the URL is refused with a message that holds \<open>[/b]\<close>, a closing tag with
  no open tag before it, so the print in the handler raises: the exception leaves
  \<open>fetch_template\<close>, which returns no list, and leaves \<open>generate\<close>, which writes
  no file.
\<close>

theorem fetch_failure_report_raises:
  "fetch_template
     \<lparr>urlopen = server (Inl (Exception
         (''URL can'' @ [CHR 0x27] @ ''t contain control characters. '' @ [CHR 0x27] @
          ''/developers/gitignore/api/a [/b]'' @ [CHR 0x27] @ '' (found at least '' @
          [CHR 0x27] @ '' '' @ [CHR 0x27] @ '')''))),
        answer = ''n'', write_fault = None, read_fault = None,
        print_fault = raises_on
          (FetchFailed (Exception
            (''URL can'' @ [CHR 0x27] @ ''t contain control characters. '' @ [CHR 0x27] @
             ''/developers/gitignore/api/a [/b]'' @ [CHR 0x27] @ '' (found at least '' @
             [CHR 0x27] @ '' '' @ [CHR 0x27] @ '')'')))
          (Exception (''closing tag '' @ [CHR 0x27] @ ''[/b]'' @ [CHR 0x27] @
             '' at position 131 doesn'' @ [CHR 0x27] @ ''t match any open tag''))\<rparr>
     [''a [/b]''] \<lparr>fs = Map.empty, console = []\<rparr> =
     (Inl (Exception (''closing tag '' @ [CHR 0x27] @ ''[/b]'' @ [CHR 0x27] @
             '' at position 131 doesn'' @ [CHR 0x27] @ ''t match any open tag'')),
      \<lparr>fs = Map.empty, console = []\<rparr>) \<and>
   generate
     \<lparr>urlopen = server (Inl (Exception
         (''URL can'' @ [CHR 0x27] @ ''t contain control characters. '' @ [CHR 0x27] @
          ''/developers/gitignore/api/a [/b]'' @ [CHR 0x27] @ '' (found at least '' @
          [CHR 0x27] @ '' '' @ [CHR 0x27] @ '')''))),
        answer = ''n'', write_fault = None, read_fault = None,
        print_fault = raises_on
          (FetchFailed (Exception
            (''URL can'' @ [CHR 0x27] @ ''t contain control characters. '' @ [CHR 0x27] @
             ''/developers/gitignore/api/a [/b]'' @ [CHR 0x27] @ '' (found at least '' @
             [CHR 0x27] @ '' '' @ [CHR 0x27] @ '')'')))
          (Exception (''closing tag '' @ [CHR 0x27] @ ''[/b]'' @ [CHR 0x27] @
             '' at position 131 doesn'' @ [CHR 0x27] @ ''t match any open tag''))\<rparr>
     [''.''] (Some []) False False (Some [''a [/b]''])
     \<lparr>fs = Map.empty, console = []\<rparr> =
     (Some (Exception (''closing tag '' @ [CHR 0x27] @ ''[/b]'' @ [CHR 0x27] @
             '' at position 131 doesn'' @ [CHR 0x27] @ ''t match any open tag'')),
      \<lparr>fs = Map.empty, console = []\<rparr>)"
  by (simp add: generate_def fetched_def fetch_template_def console_print_def raises_on_def
      server_def)

subsection \<open>The lines of a fetched template\<close>

text \<open>
  Claim C6 says that every line \<open>fetch_template\<close> returns is free of trailing
  whitespace. The source strips the body as a whole and then splits it, so a line
  inside the body keeps its own: the body \<open>a\<close>, space, newline, \<open>b\<close> gives the two
  lines \<open>a\<close> with its space and \<open>b\<close>.
\<close>

theorem fetch_template_inner_line_keeps_whitespace:
  "fst (fetch_template \<lparr>urlopen = server (Inr ''a \<newline>b''), answer = ''n'',
          write_fault = None, read_fault = None, print_fault = renders_all\<rparr> [''python'']
          \<lparr>fs = Map.empty, console = []\<rparr>) = Inr [''a '', ''b''] \<and>
   isspace (last ''a '') \<and> rstrip ''a '' \<noteq> ''a ''"
  by (simp add: fetch_template_def server_def strip_def lstrip_def rstrip_def isspace_def
      islinebreak_def)

text \<open>
  Claim C6, amended. When the GET succeeds, \<open>fetch_template\<close> prints nothing and
  returns the lines (\<open>splitlines\<close>) of the body stripped, as a whole, of the
  whitespace at its two ends. So, when anything is left of the body, there is a line,
  the first line starts without whitespace and the last line ends without whitespace.
\<close>

theorem fetch_template_strips_body_then_splits:
  assumes "urlopen env (api_url ts) = Inr body"
  shows "fetch_template env ts w = (Inr (splitlines (strip body)), w) \<and>
         (strip body \<noteq> [] \<longrightarrow>
            splitlines (strip body) \<noteq> [] \<and>
            lstrip (hd (splitlines (strip body))) = hd (splitlines (strip body)) \<and>
            rstrip (last (splitlines (strip body))) = last (splitlines (strip body)))"
proof -
  have a: "fetch_template env ts w = (Inr (splitlines (strip body)), w)"
    using assms by (simp add: fetch_template_def)
  have b: "splitlines (strip body) \<noteq> [] \<and>
           lstrip (hd (splitlines (strip body))) = hd (splitlines (strip body)) \<and>
           rstrip (last (splitlines (strip body))) = last (splitlines (strip body))"
    if ne: "strip body \<noteq> []"
  proof -
    from strip_ends[OF ne] have h: "\<not> islinebreak (hd (strip body))"
      and l: "\<not> islinebreak (last (strip body))"
      using islinebreak_isspace by blast+
    from splitlines_hd[OF ne h] splitlines_last[OF ne l] strip_ends[OF ne]
    show ?thesis by (simp add: rstrip_id lstrip_id)
  qed
  from a b show ?thesis by blast
qed

theorem fetch_template_strips_body_then_splits_witness:
  "urlopen \<lparr>urlopen = server (Inr '' a \<newline>b ''), answer = ''n'', write_fault = None,
      read_fault = None, print_fault = renders_all\<rparr> (api_url [''python'']) =
     Inr '' a \<newline>b '' \<and>
   strip '' a \<newline>b '' \<noteq> [] \<and>
   fetch_template \<lparr>urlopen = server (Inr '' a \<newline>b ''), answer = ''n'', write_fault = None,
      read_fault = None, print_fault = renders_all\<rparr> [''python'']
      \<lparr>fs = Map.empty, console = []\<rparr> =
     (Inr [''a '', ''b''], \<lparr>fs = Map.empty, console = []\<rparr>) \<and>
   lstrip ''a '' = ''a '' \<and> rstrip ''b'' = ''b''"
proof -
  let ?env = "\<lparr>urlopen = server (Inr '' a \<newline>b ''), answer = ''n'', write_fault = None,
      read_fault = None, print_fault = renders_all\<rparr>"
  have h: "urlopen ?env (api_url [''python'']) = Inr '' a \<newline>b ''"
    by (simp add: server_def)
  have s: "strip '' a \<newline>b '' = ''a \<newline>b''"
    by (simp add: strip_def lstrip_def rstrip_def isspace_def)
  from fetch_template_strips_body_then_splits[OF h, of "\<lparr>fs = Map.empty, console = []\<rparr>"] h
  show ?thesis by (simp add: s islinebreak_def lstrip_def rstrip_def isspace_def)
qed

subsection \<open>The entries normalizer\<close>

text \<open>
  Claim C7 has the positional string \<open>[a,b]\<close> yield the entries \<open>a\<close> and \<open>b\<close>.
  That is what the bracket branch of \<open>main\<close> computes: the two outer characters
  dropped, the rest split on commas. The branch is not reached: the string contains
  a comma, the comma test comes first in the chain, and the run adds \<open>[a\<close> and
  \<open>b]\<close>.
\<close>

theorem bracketed_list_is_split_by_the_comma_rule:
  "args_data (main_entries \<lparr>args_entries = Some ''[a,b]'', args_path = [''.''],
       args_data = [], args_template = None, args_append = False, args_force = False,
       args_read = False\<rparr>) = [''[a'', ''b]''] \<and>
   args_data (main_entries \<lparr>args_entries = Some ''[a,b]'', args_path = [''.''],
       args_data = [], args_template = None, args_append = False, args_force = False,
       args_read = False\<rparr>) \<noteq> [''a'', ''b''] \<and>
   split_sep CHR '','' (slice_1_m1 ''[a,b]'') = [''a'', ''b'']"
  by (simp add: main_entries_def Let_def replace_def split_entries_def contains_def
      slice_1_m1_def)

subsection \<open>Positional entries make the run an append\<close>

text \<open>
  Claim C8. Whenever the positional entries argument is given and not empty,
  \<open>main\<close> sets the append flag, whatever the flags \<open>--append\<close> and \<open>--force\<close> were:
  unless \<open>--read\<close> was given, \<open>generate\<close> is called with \<open>append=True\<close>, the
  force flag as given, and the data extended by the normalised entries.
\<close>

theorem positional_entries_imply_append:
  assumes "args_entries a = Some s" and "s \<noteq> []"
  shows "args_append (main_entries a) \<and>
         (\<not> args_read a \<longrightarrow>
            main env a w =
              generate env (args_path a)
                (Some (args_data a @ split_entries (replace (CHR 0x5C) CHR ''/'' s)))
                True (args_force a) (args_template a) (display Starting w))"
  using assms by (simp add: main_entries_def main_def Let_def)

theorem positional_entries_imply_append_witness:
  "args_entries \<lparr>args_entries = Some ''a,b'', args_path = [''.''], args_data = [],
       args_template = None, args_append = False, args_force = True, args_read = False\<rparr>
     = Some ''a,b'' \<and> ''a,b'' \<noteq> [] \<and>
   args_append (main_entries \<lparr>args_entries = Some ''a,b'', args_path = [''.''], args_data = [],
       args_template = None, args_append = False, args_force = True, args_read = False\<rparr>)"
  using positional_entries_imply_append
    [of "\<lparr>args_entries = Some ''a,b'', args_path = [''.''], args_data = [],
       args_template = None, args_append = False, args_force = True, args_read = False\<rparr>" "''a,b''"]
  by simp

subsection \<open>Reading never writes\<close>




subsection \<open>A lone quote character\<close>

text \<open>
  Claim C10. When the positional argument is one quote character (double quote,
  single quote or backtick), \<open>startswith\<close> and \<open>endswith\<close> both hold on that one
  character, the slice between them is empty, and exactly one empty string is added
  to the data; the content written then ends with one more newline, a blank last line.
\<close>

theorem single_quote_char_adds_empty_entry:
  assumes "q = CHR 0x22 \<or> q = CHR 0x27 \<or> q = CHR 0x60"
      and "args_entries a = Some [q]"
  shows "startswith [q] q \<and> endswith [q] q \<and> slice_1_m1 [q] = [] \<and>
         args_data (main_entries a) = args_data a @ [[]] \<and>
         file_content (assemble T (Some (args_data (main_entries a)))) =
           file_content (assemble T (Some (args_data a))) @ [CHR 0x0A]"
proof -
  have d: "args_data (main_entries a) = args_data a @ [[]]"
    using assms
    by (auto simp: main_entries_def Let_def replace_def split_entries_def contains_def
        startswith_def endswith_def slice_1_m1_def)
  have "T @ DEFAULT_ENTRIES @ args_data a \<noteq> []"
    by (simp add: DEFAULT_ENTRIES_def)
  from join_snoc[OF this, of "[CHR 0x0A]" "[]"]
  have "file_content (T @ DEFAULT_ENTRIES @ args_data a @ [[]]) =
        file_content (T @ DEFAULT_ENTRIES @ args_data a) @ [CHR 0x0A]"
    by (simp add: file_content_def)
  with d show ?thesis
    by (simp add: assemble_eq startswith_def endswith_def slice_1_m1_def)
qed

theorem single_quote_char_adds_empty_entry_witness:
  "(CHR 0x27 = CHR 0x22 \<or> CHR 0x27 = CHR 0x27 \<or> CHR 0x27 = CHR 0x60) \<and>
   args_entries \<lparr>args_entries = Some [CHR 0x27], args_path = [''.''], args_data = [''x''],
       args_template = None, args_append = False, args_force = False, args_read = False\<rparr>
     = Some [CHR 0x27] \<and>
   args_data (main_entries \<lparr>args_entries = Some [CHR 0x27], args_path = [''.''],
       args_data = [''x''], args_template = None, args_append = False, args_force = False,
       args_read = False\<rparr>) = [''x'', []] \<and>
   file_content (assemble [] (Some (args_data (main_entries \<lparr>args_entries = Some [CHR 0x27],
       args_path = [''.''], args_data = [''x''], args_template = None, args_append = False,
       args_force = False, args_read = False\<rparr>)))) =
     file_content (assemble [] (Some [''x''])) @ [CHR 0x0A]"
  using single_quote_char_adds_empty_entry
    [of "CHR 0x27" "\<lparr>args_entries = Some [CHR 0x27], args_path = [''.''], args_data = [''x''],
       args_template = None, args_append = False, args_force = False, args_read = False\<rparr>" "[]"]
  by auto

end
